theory Spec2Isabelle
  imports Complex_Main "HOL-Library.Word"
begin

unbundle bit_operations_syntax

section \<open>Regular expressions of the address validator\<close>

text \<open>
  \<open>isValidIP\<close> tests its argument against two anchored regular expressions
  (\<open>^ ... $\<close>, no flags), so a test is a match of the whole string. Patterns are terms
  of \<open>regex\<close>; \<open>lang\<close> is the set of strings a pattern denotes and \<open>regex_test\<close>
  decides membership by taking derivatives. Characters are the 8-bit \<open>char\<close> of HOL:
  the patterns only accept ASCII, so a string with any other code unit is rejected
  whatever its encoding.
\<close>

datatype regex =
    Null
  | Eps
  | Chr char
  | Range char char
  | Alt regex regex
  | Seq regex regex
  | Star regex

definition in_range :: "char \<Rightarrow> char \<Rightarrow> char \<Rightarrow> bool" where
  "in_range lo hi c = ((of_char lo :: nat) \<le> of_char c \<and> (of_char c :: nat) \<le> of_char hi)"

fun nullable :: "regex \<Rightarrow> bool" where
  "nullable Null = False"
| "nullable Eps = True"
| "nullable (Chr a) = False"
| "nullable (Range lo hi) = False"
| "nullable (Alt r s) = (nullable r \<or> nullable s)"
| "nullable (Seq r s) = (nullable r \<and> nullable s)"
| "nullable (Star r) = True"

text \<open>Constructors that drop the empty language, so that derivatives stay small.\<close>

fun mk_alt :: "regex \<Rightarrow> regex \<Rightarrow> regex" where
  "mk_alt Null s = s"
| "mk_alt r Null = r"
| "mk_alt r s = Alt r s"

fun mk_seq :: "regex \<Rightarrow> regex \<Rightarrow> regex" where
  "mk_seq Null s = Null"
| "mk_seq r Null = Null"
| "mk_seq Eps s = s"
| "mk_seq r s = Seq r s"

fun deriv :: "char \<Rightarrow> regex \<Rightarrow> regex" where
  "deriv c Null = Null"
| "deriv c Eps = Null"
| "deriv c (Chr a) = (if a = c then Eps else Null)"
| "deriv c (Range lo hi) = (if in_range lo hi c then Eps else Null)"
| "deriv c (Alt r s) = mk_alt (deriv c r) (deriv c s)"
| "deriv c (Seq r s) =
     (if nullable r then mk_alt (mk_seq (deriv c r) s) (deriv c s) else mk_seq (deriv c r) s)"
| "deriv c (Star r) = mk_seq (deriv c r) (Star r)"

fun derivs :: "string \<Rightarrow> regex \<Rightarrow> regex" where
  "derivs [] r = r"
| "derivs (c # cs) r = derivs cs (deriv c r)"

definition regex_test :: "regex \<Rightarrow> string \<Rightarrow> bool" where
  "regex_test r s = nullable (derivs s r)"

text \<open>The quantifiers of the patterns: \<open>r?\<close>, \<open>r{n}\<close>, \<open>r{m,n}\<close> and \<open>r{1,}\<close>.\<close>

definition opt :: "regex \<Rightarrow> regex" where
  "opt r = Alt r Eps"

primrec rep :: "nat \<Rightarrow> regex \<Rightarrow> regex" where
  "rep 0 r = Eps"
| "rep (Suc n) r = Seq r (rep n r)"

primrec upto_rep :: "nat \<Rightarrow> regex \<Rightarrow> regex" where
  "upto_rep 0 r = Eps"
| "upto_rep (Suc n) r = Alt (Seq r (upto_rep n r)) Eps"

definition rep_range :: "nat \<Rightarrow> nat \<Rightarrow> regex \<Rightarrow> regex" where
  "rep_range m n r = Seq (rep m r) (upto_rep (n - m) r)"

definition many1 :: "regex \<Rightarrow> regex" where
  "many1 r = Seq r (Star r)"

primrec lit :: "string \<Rightarrow> regex" where
  "lit [] = Eps"
| "lit (c # cs) = Seq (Chr c) (lit cs)"

primrec alts :: "regex list \<Rightarrow> regex" where
  "alts [] = Null"
| "alts (r # rs) = Alt r (alts rs)"

text \<open>The denotation of a pattern.\<close>

definition conc :: "string set \<Rightarrow> string set \<Rightarrow> string set" where
  "conc A B = {u @ v | u v. u \<in> A \<and> v \<in> B}"

inductive_set star :: "string set \<Rightarrow> string set" for A :: "string set" where
  star_empty: "[] \<in> star A"
| star_step: "u \<in> A \<Longrightarrow> v \<in> star A \<Longrightarrow> u @ v \<in> star A"

fun lang :: "regex \<Rightarrow> string set" where
  "lang Null = {}"
| "lang Eps = {[]}"
| "lang (Chr a) = {[a]}"
| "lang (Range lo hi) = {[c] | c. in_range lo hi c}"
| "lang (Alt r s) = lang r \<union> lang s"
| "lang (Seq r s) = conc (lang r) (lang s)"
| "lang (Star r) = star (lang r)"

subsection \<open>The two patterns of \<open>isValidIP\<close>\<close>

definition digit :: regex where
  "digit = Range CHR ''0'' CHR ''9''"

definition hex :: regex where
  "hex = Alt (Range CHR ''0'' CHR ''9'') (Alt (Range CHR ''a'' CHR ''f'') (Range CHR ''A'' CHR ''F''))"

definition alnum :: regex where
  "alnum = Alt (Range CHR ''0'' CHR ''9'') (Alt (Range CHR ''a'' CHR ''z'') (Range CHR ''A'' CHR ''Z''))"

text \<open>\<open>25[0-5]|2[0-4][0-9]|[01]?[0-9][0-9]?\<close>\<close>

definition octet4 :: regex where
  "octet4 =
     Alt (Seq (lit ''25'') (Range CHR ''0'' CHR ''5''))
    (Alt (Seq (Chr CHR ''2'') (Seq (Range CHR ''0'' CHR ''4'') digit))
         (Seq (opt (Range CHR ''0'' CHR ''1'')) (Seq digit (opt digit))))"

text \<open>\<open>^(?:(?:25[0-5]|2[0-4][0-9]|[01]?[0-9][0-9]?)\.){3}(?:25[0-5]|2[0-4][0-9]|[01]?[0-9][0-9]?)$\<close>\<close>

definition ipv4Regex :: regex where
  "ipv4Regex = Seq (rep 3 (Seq octet4 (Chr CHR ''.''))) octet4"

text \<open>\<open>[0-9a-fA-F]{1,4}\<close>, followed or preceded by a colon.\<close>

definition group :: regex where
  "group = rep_range 1 4 hex"

definition gc :: regex where
  "gc = Seq group (Chr CHR '':'')"

definition cg :: regex where
  "cg = Seq (Chr CHR '':'') group"

text \<open>\<open>25[0-5]|(2[0-4]|1{0,1}[0-9]){0,1}[0-9]\<close>\<close>

definition octet6 :: regex where
  "octet6 =
     Alt (Seq (lit ''25'') (Range CHR ''0'' CHR ''5''))
         (Seq (rep_range 0 1
                 (Alt (Seq (Chr CHR ''2'') (Range CHR ''0'' CHR ''4''))
                      (Seq (rep_range 0 1 (Chr CHR ''1'')) digit)))
              digit)"

definition dotted6 :: regex where
  "dotted6 = Seq (rep_range 3 3 (Seq octet6 (Chr CHR ''.''))) octet6"

text \<open>The twelve alternatives of the IPv6 pattern, in the order of the source.\<close>

definition ipv6Regex :: regex where
  "ipv6Regex = alts
     [ Seq (rep_range 7 7 gc) group,
       Seq (rep_range 1 7 gc) (Chr CHR '':''),
       Seq (rep_range 1 6 gc) cg,
       Seq (rep_range 1 5 gc) (rep_range 1 2 cg),
       Seq (rep_range 1 4 gc) (rep_range 1 3 cg),
       Seq (rep_range 1 3 gc) (rep_range 1 4 cg),
       Seq (rep_range 1 2 gc) (rep_range 1 5 cg),
       Seq gc (rep_range 1 6 cg),
       Seq (Chr CHR '':'') (Alt (rep_range 1 7 cg) (Chr CHR '':'')),
       Seq (lit ''fe80:'')
         (Seq (rep_range 0 4 (Seq (Chr CHR '':'') (rep_range 0 4 hex)))
              (Seq (Chr CHR ''%'') (many1 alnum))),
       Seq (lit ''::'')
         (Seq (rep_range 0 1
                 (Seq (lit ''ffff'')
                    (Seq (rep_range 0 1 (Seq (Chr CHR '':'') (rep_range 1 4 (Chr CHR ''0''))))
                         (Chr CHR '':''))))
              dotted6),
       Seq (rep_range 1 4 gc) (Seq (Chr CHR '':'') dotted6) ]"

definition isValidIP :: "string \<Rightarrow> bool" where
  "isValidIP ip = (regex_test ipv4Regex ip \<or> regex_test ipv6Regex ip)"


section \<open>Strings and numbers of the host language\<close>

text \<open>\<open>s.split(sep)\<close> for a one-character separator, and \<open>parts.join(sep)\<close>.\<close>

fun js_split :: "char \<Rightarrow> string \<Rightarrow> string list" where
  "js_split sep [] = [[]]"
| "js_split sep (c # cs) =
     (if c = sep then [] # js_split sep cs
      else (case js_split sep cs of [] \<Rightarrow> [[c]] | p # ps \<Rightarrow> (c # p) # ps))"

fun js_join :: "string \<Rightarrow> string list \<Rightarrow> string" where
  "js_join sep [] = []"
| "js_join sep [p] = p"
| "js_join sep (p # q # ps) = p @ sep @ js_join sep (q # ps)"

definition js_includes :: "string \<Rightarrow> char \<Rightarrow> bool" where
  "js_includes s c = (c \<in> set s)"

text \<open>The decimal text of a natural number, as template strings and \<open>join\<close> print it.\<close>

definition digit_char :: "nat \<Rightarrow> char" where
  "digit_char d = char_of (48 + d)"

function dec_nat :: "nat \<Rightarrow> string" where
  "dec_nat n = (if n < 10 then [digit_char n] else dec_nat (n div 10) @ [digit_char (n mod 10)])"
  by pat_completeness auto
termination
  by (relation "measure (\<lambda>n. n)") auto

text \<open>
  \<open>Number(s)\<close> on the strings that reach it. The parts of a validated address are
  decimal digit strings or contain a colon; \<open>Number\<close> gives the decimal value of the
  first kind (0 for the empty string) and \<open>NaN\<close>, here \<open>None\<close>, for the second.
\<close>

definition is_digit :: "char \<Rightarrow> bool" where
  "is_digit c = in_range CHR ''0'' CHR ''9'' c"

definition digit_val :: "char \<Rightarrow> nat" where
  "digit_val c = of_char c - 48"

definition Number :: "string \<Rightarrow> nat option" where
  "Number s = (if list_all is_digit s then Some (foldl (\<lambda>a c. 10 * a + digit_val c) 0 s) else None)"

text \<open>
  \<open>ToInt32\<close>, applied by the bitwise operators to their operands: \<open>NaN\<close> and
  \<open>undefined\<close> become 0, an integer is taken modulo \<open>2^32\<close>. A shift yields a signed
  32-bit number; its count is taken modulo 32.
\<close>

definition ToInt32 :: "int option \<Rightarrow> 32 word" where
  "ToInt32 x = (case x of None \<Rightarrow> 0 | Some i \<Rightarrow> word_of_int i)"

definition shl :: "int option \<Rightarrow> nat \<Rightarrow> 32 word" where
  "shl x n = push_bit (n mod 32) (ToInt32 x)"

section \<open>Decoded values\<close>

text \<open>
  What \<open>reader.get\<close> returns: \<open>null\<close> or a decoded value. Objects keep the order of
  their keys; a property is read at its first binding. Numbers carry their mathematical
  value; \<open>NaN\<close> and the infinities are not modelled. \<open>JBigInt\<close> is a \<open>BigInt\<close>, which
  the reader decodes from the 64-bit and 128-bit unsigned integers of a file.
\<close>

datatype jsval =
    JNull
  | JBool bool
  | JNum rat
  | JBigInt int
  | JStr string
  | JArr "jsval list"
  | JObj "(string \<times> jsval) list"

text \<open>What the program may catch: an \<open>Error\<close> with its message, a \<open>TypeError\<close> raised by
  the engine (its message is the engine's), or a thrown value that is no \<open>Error\<close>.\<close>

datatype thrown = ErrorObj string | TypeError | NonError

fun truthy :: "jsval \<Rightarrow> bool" where
  "truthy JNull = False"
| "truthy (JBool b) = b"
| "truthy (JNum x) = (x \<noteq> 0)"
| "truthy (JBigInt n) = (n \<noteq> 0)"
| "truthy (JStr s) = (s \<noteq> [])"
| "truthy (JArr xs) = True"
| "truthy (JObj kvs) = True"

text \<open>
  \<open>key in value\<close>: a \<open>TypeError\<close> on a primitive. The keys the program asks for are
  neither array indices nor names of the prototypes, so only the own keys of an object
  answer true.
\<close>

fun js_in :: "string \<Rightarrow> jsval \<Rightarrow> thrown + bool" where
  "js_in k (JObj kvs) = Inr (k \<in> set (map fst kvs))"
| "js_in k (JArr xs) = Inr False"
| "js_in k v = Inl TypeError"

text \<open>\<open>value.key\<close> on a value that is neither \<open>null\<close> nor \<open>undefined\<close>; \<open>None\<close> is
  \<open>undefined\<close>. \<open>chain\<close> is \<open>value?.key\<close>.\<close>

fun get_prop :: "jsval \<Rightarrow> string \<Rightarrow> jsval option" where
  "get_prop (JObj kvs) k = map_of kvs k"
| "get_prop v k = None"

fun chain :: "jsval option \<Rightarrow> string \<Rightarrow> jsval option" where
  "chain None k = None"
| "chain (Some JNull) k = None"
| "chain (Some v) k = get_prop v k"

fun is_number :: "jsval option \<Rightarrow> bool" where
  "is_number (Some (JNum x)) = True"
| "is_number v = False"

section \<open>The record classifier\<close>

definition isAsnResponse :: "jsval \<Rightarrow> thrown + bool" where
  "isAsnResponse result =
     (case js_in ''autonomous_system_number'' result of
        Inl e \<Rightarrow> Inl e
      | Inr b \<Rightarrow> Inr (b \<and> is_number (get_prop result ''autonomous_system_number'')))"

definition isCityResponse :: "jsval \<Rightarrow> thrown + bool" where
  "isCityResponse result =
     (case js_in ''city'' result of
        Inl e \<Rightarrow> Inl e
      | Inr city \<Rightarrow>
          if city then Inr True
          else
            (case js_in ''location'' result of
               Inl e \<Rightarrow> Inl e
             | Inr location \<Rightarrow>
                 if location then Inr True
                 else
                   (case js_in ''postal'' result of
                      Inl e \<Rightarrow> Inl e
                    | Inr postal \<Rightarrow>
                        if postal then Inr True else js_in ''subdivisions'' result)))"

definition isCountryResponse :: "jsval \<Rightarrow> thrown + bool" where
  "isCountryResponse result =
     (case js_in ''country'' result of
        Inl e \<Rightarrow> Inl e
      | Inr country \<Rightarrow> if country then Inr True else js_in ''continent'' result)"

definition asn_fallback :: jsval where
  "asn_fallback =
     JObj [(''autonomous_system_number'', JNum 0),
           (''autonomous_system_organization'', JStr ''Unknown'')]"

definition transformResult :: "jsval \<Rightarrow> string \<Rightarrow> thrown + jsval" where
  "transformResult result datasetType =
     (if datasetType = ''asn'' then
        (case isAsnResponse result of
           Inl e \<Rightarrow> Inl e
         | Inr b \<Rightarrow> Inr (if b then result else asn_fallback))
      else if datasetType = ''city'' then
        (case isCityResponse result of
           Inl e \<Rightarrow> Inl e
         | Inr b \<Rightarrow> Inr (if b then result else JObj []))
      else if datasetType = ''country'' then
        (case isCountryResponse result of
           Inl e \<Rightarrow> Inl e
         | Inr b \<Rightarrow> Inr (if b then result else JObj []))
      else Inr result)"


section \<open>Lookups on a loaded dataset\<close>

record MMDBDataset =
  name :: string
  url :: string
  type :: string

text \<open>
  The context holds the reader of the library. \<open>'r\<close> is the state of that reader and
  \<open>get\<close> its lookup: called on a reader and an address, it returns a decoded value
  (\<open>JNull\<close> when the address has no data) or raises, and leaves the reader in some state.
  Every function below hands the reader it has used back with its result, so what a
  call does to the context can be read off.
\<close>

record 'r MMDBContext =
  dataset :: "MMDBDataset option"
  reader :: "'r option"

type_synonym 'r get = "'r \<Rightarrow> string \<Rightarrow> (thrown + jsval) \<times> 'r"

text \<open>
  The errors of the two lookups, thrown as \<open>Error\<close> with the messages
  \<open>No dataset loaded\<close>, \<open>Invalid IP address format\<close> and \<open>IP lookup failed: m\<close>, where
  \<open>m\<close> is the message of the caught \<open>Error\<close>, or \<open>Unknown error\<close>.
\<close>

datatype lookup_error = NoDatasetLoaded | InvalidIPFormat | LookupFailed thrown

definition lookupIP ::
  "'r get \<Rightarrow> 'r MMDBContext \<Rightarrow> string \<Rightarrow> (lookup_error + jsval) \<times> 'r MMDBContext" where
  "lookupIP get context ip =
     (case (dataset context, reader context) of
        (Some d, Some r) \<Rightarrow>
          if \<not> isValidIP ip then (Inl InvalidIPFormat, context)
          else
            (case get r ip of
               (Inl e, r1) \<Rightarrow> (Inl (LookupFailed e), context\<lparr>reader := Some r1\<rparr>)
             | (Inr result, r1) \<Rightarrow>
                 if \<not> truthy result then (Inr JNull, context\<lparr>reader := Some r1\<rparr>)
                 else
                   (case transformResult result (type d) of
                      Inl e \<Rightarrow> (Inl (LookupFailed e), context\<lparr>reader := Some r1\<rparr>)
                    | Inr v \<Rightarrow> (Inr v, context\<lparr>reader := Some r1\<rparr>)))
      | _ \<Rightarrow> (Inl NoDatasetLoaded, context))"

subsection \<open>The IPv4 search\<close>

text \<open>\<open>parts[i]\<close> of \<open>ip.split(".").map(Number)\<close>: \<open>undefined\<close> beyond the end.\<close>

definition part :: "nat option list \<Rightarrow> nat \<Rightarrow> int option" where
  "part parts i = (if i < length parts then map_option int (parts ! i) else None)"

text \<open>\<open>(parts[0] << 24) + (parts[1] << 16) + (parts[2] << 8) + parts[3]\<close>: the shifts
  give signed 32-bit numbers, the sum is a sum of numbers and \<open>NaN\<close> if \<open>parts[3]\<close> is.\<close>

definition ipInt_of :: "string \<Rightarrow> int option" where
  "ipInt_of ip =
     (let parts = map Number (js_split CHR ''.'' ip)
      in case part parts 3 of
           None \<Rightarrow> None
         | Some d \<Rightarrow>
             Some (sint (shl (part parts 0) 24) + sint (shl (part parts 1) 16)
                   + sint (shl (part parts 2) 8) + d))"

text \<open>The four bytes of a 32-bit number, joined by dots.\<close>

definition dotted :: "32 word \<Rightarrow> string" where
  "dotted w =
     js_join ''.''
       [dec_nat (unat (drop_bit 24 w AND 255)),
        dec_nat (unat (drop_bit 16 w AND 255)),
        dec_nat (unat (drop_bit 8 w AND 255)),
        dec_nat (unat (w AND 255))]"

text \<open>
  The values of one round of the loop, for the prefix length \<open>currentPrefix = bit + 1\<close>:
  \<open>mask = 0xffffffff << (32 - currentPrefix)\<close>, \<open>currentNetwork = ipInt & mask\<close>,
  \<open>alternateIP = ipInt ^ (1 << (31 - bit))\<close> and the block \<open>networkIP/currentPrefix\<close>.
\<close>

definition prefix_mask :: "nat \<Rightarrow> 32 word" where
  "prefix_mask currentPrefix = shl (Some 4294967295) (32 - currentPrefix)"

definition currentNetwork :: "int option \<Rightarrow> nat \<Rightarrow> 32 word" where
  "currentNetwork ipInt currentPrefix = ToInt32 ipInt AND prefix_mask currentPrefix"

definition alternateIP :: "int option \<Rightarrow> nat \<Rightarrow> 32 word" where
  "alternateIP ipInt bitno = ToInt32 ipInt XOR shl (Some 1) (31 - bitno)"

definition networkBlock :: "int option \<Rightarrow> nat \<Rightarrow> string" where
  "networkBlock ipInt currentPrefix = dotted (currentNetwork ipInt currentPrefix) @ ''/'' @ dec_nat currentPrefix"

text \<open>
  \<open>stringify\<close> is \<open>JSON.stringify\<close>: it gives the text of a value or raises, as it does
  on a \<open>BigInt\<close>. The searches compare its texts, inside the \<open>try\<close> blocks that also
  hold the calls of the reader.

  The loop \<open>for (let bit = 0; bit < 32; bit++)\<close>, over the values its counter takes,
  here \<open>bitno\<close>; \<open>None\<close> when the loop runs to its end. A probe that raises, in the
  reader or in \<open>JSON.stringify\<close>, goes on with the next round; an alternate probe that
  raises returns the block.
\<close>

fun ipv4_search ::
  "'r get \<Rightarrow> (jsval \<Rightarrow> thrown + string) \<Rightarrow> int option \<Rightarrow> string \<Rightarrow> nat list \<Rightarrow> 'r
     \<Rightarrow> string option \<times> 'r" where
  "ipv4_search get stringify ipInt targetDataStr [] r = (None, r)"
| "ipv4_search get stringify ipInt targetDataStr (bitno # rest) r =
     (case get r (dotted (currentNetwork ipInt (bitno + 1))) of
        (Inl e, r1) \<Rightarrow> ipv4_search get stringify ipInt targetDataStr rest r1
      | (Inr networkData, r1) \<Rightarrow>
          (case stringify networkData of
             Inl e \<Rightarrow> ipv4_search get stringify ipInt targetDataStr rest r1
           | Inr networkDataStr \<Rightarrow>
               if networkDataStr = targetDataStr then (Some (networkBlock ipInt (bitno + 1)), r1)
               else if alternateIP ipInt bitno AND prefix_mask (bitno + 1)
                         = currentNetwork ipInt (bitno + 1) then
                 (case get r1 (dotted (alternateIP ipInt bitno)) of
                    (Inl e, r2) \<Rightarrow> (Some (networkBlock ipInt (bitno + 1)), r2)
                  | (Inr alternateData, r2) \<Rightarrow>
                      (case stringify alternateData of
                         Inl e \<Rightarrow> (Some (networkBlock ipInt (bitno + 1)), r2)
                       | Inr alternateDataStr \<Rightarrow>
                           if alternateDataStr \<noteq> targetDataStr
                           then (Some (networkBlock ipInt (bitno + 1)), r2)
                           else ipv4_search get stringify ipInt targetDataStr rest r2))
               else ipv4_search get stringify ipInt targetDataStr rest r1))"

definition findIPv4CIDRBlock ::
  "'r get \<Rightarrow> (jsval \<Rightarrow> thrown + string) \<Rightarrow> 'r \<Rightarrow> string \<Rightarrow> string \<Rightarrow> string \<times> 'r" where
  "findIPv4CIDRBlock get stringify r ip targetDataStr =
     (case ipv4_search get stringify (ipInt_of ip) targetDataStr [0..<32] r of
        (Some block, r1) \<Rightarrow> (block, r1)
      | (None, r1) \<Rightarrow> (ip @ ''/32'', r1))"

subsection \<open>The IPv6 search\<close>

definition commonPrefixes :: "nat list" where
  "commonPrefixes = [128, 64, 56, 48, 40, 32, 24, 16]"

fun ipv6_search ::
  "'r get \<Rightarrow> (jsval \<Rightarrow> thrown + string) \<Rightarrow> string \<Rightarrow> string \<Rightarrow> nat list \<Rightarrow> 'r
     \<Rightarrow> string option \<times> 'r" where
  "ipv6_search get stringify ip targetDataStr [] r = (None, r)"
| "ipv6_search get stringify ip targetDataStr (prefix # rest) r =
     (let parts = js_split CHR '':'' ip;
          cidrBlock =
            (if prefix \<ge> 64 then js_join '':'' (take 4 parts) @ ''::/'' @ dec_nat prefix
             else if prefix \<ge> 32 then js_join '':'' (take 2 parts) @ ''::/'' @ dec_nat prefix
             else (case parts of [] \<Rightarrow> ''undefined'' | p # ps \<Rightarrow> p) @ ''::/'' @ dec_nat prefix)
      in case get r ip of
           (Inl e, r1) \<Rightarrow> ipv6_search get stringify ip targetDataStr rest r1
         | (Inr testResult, r1) \<Rightarrow>
             if truthy testResult then
               (case stringify testResult of
                  Inl e \<Rightarrow> ipv6_search get stringify ip targetDataStr rest r1
                | Inr testResultStr \<Rightarrow>
                    if testResultStr = targetDataStr then (Some cidrBlock, r1)
                    else ipv6_search get stringify ip targetDataStr rest r1)
             else ipv6_search get stringify ip targetDataStr rest r1)"

definition findIPv6CIDRBlock ::
  "'r get \<Rightarrow> (jsval \<Rightarrow> thrown + string) \<Rightarrow> 'r \<Rightarrow> string \<Rightarrow> string \<Rightarrow> string \<times> 'r" where
  "findIPv6CIDRBlock get stringify r ip targetDataStr =
     (case ipv6_search get stringify ip targetDataStr commonPrefixes r of
        (Some block, r1) \<Rightarrow> (block, r1)
      | (None, r1) \<Rightarrow> (ip @ ''/128'', r1))"

subsection \<open>The search for the block of an address\<close>

text \<open>
  The whole search runs in one \<open>try\<close> whose \<open>catch\<close> returns \<open>null\<close>: that is the answer
  when the reader raises on the address and when \<open>JSON.stringify\<close> raises on its data.
\<close>

definition findCIDRBlock ::
  "'r get \<Rightarrow> (jsval \<Rightarrow> thrown + string) \<Rightarrow> 'r MMDBContext \<Rightarrow> string
     \<Rightarrow> (lookup_error + string option) \<times> 'r MMDBContext" where
  "findCIDRBlock get stringify context ip =
     (case (dataset context, reader context) of
        (Some d, Some r) \<Rightarrow>
          if \<not> isValidIP ip then (Inl InvalidIPFormat, context)
          else
            (case get r ip of
               (Inl e, r1) \<Rightarrow> (Inr None, context\<lparr>reader := Some r1\<rparr>)
             | (Inr targetData, r1) \<Rightarrow>
                 if \<not> truthy targetData then (Inr None, context\<lparr>reader := Some r1\<rparr>)
                 else
                   (case stringify targetData of
                      Inl e \<Rightarrow> (Inr None, context\<lparr>reader := Some r1\<rparr>)
                    | Inr targetDataStr \<Rightarrow>
                        (let isIPv4 = js_includes ip CHR ''.'';
                             (block, r2) =
                               (if isIPv4 then findIPv4CIDRBlock get stringify r1 ip targetDataStr
                                else findIPv6CIDRBlock get stringify r1 ip targetDataStr)
                         in (Inr (Some block), context\<lparr>reader := Some r2\<rparr>))))
      | _ \<Rightarrow> (Inl NoDatasetLoaded, context))"


section \<open>Formatting a lookup for display\<close>

text \<open>
  \<open>String(v)\<close>, which template strings and \<open>join\<close> apply; \<open>join\<close> prints \<open>null\<close> as
  the empty string. \<open>num_text\<close> is the engine's text of a number.
\<close>

fun toString :: "(rat \<Rightarrow> string) \<Rightarrow> jsval \<Rightarrow> string"
  and join_text :: "(rat \<Rightarrow> string) \<Rightarrow> jsval list \<Rightarrow> string" where
  "toString num_text JNull = ''null''"
| "toString num_text (JBool b) = (if b then ''true'' else ''false'')"
| "toString num_text (JNum x) = num_text x"
| "toString num_text (JBigInt n) = (if n < 0 then ''-'' else []) @ dec_nat (nat \<bar>n\<bar>)"
| "toString num_text (JStr s) = s"
| "toString num_text (JArr xs) = join_text num_text xs"
| "toString num_text (JObj kvs) = ''[object Object]''"
| "join_text num_text [] = []"
| "join_text num_text [v] = (if v = JNull then [] else toString num_text v)"
| "join_text num_text (v # w # ws) =
     (if v = JNull then [] else toString num_text v) @ '','' @ join_text num_text (w # ws)"

text \<open>\<open>x.toFixed(2)\<close>: the nearest multiple of 0.01, the larger one at a tie, with the
  sign of \<open>x\<close>; from \<open>10^21\<close> on, the text of the number.\<close>

definition toFixed2 :: "(rat \<Rightarrow> string) \<Rightarrow> rat \<Rightarrow> string" where
  "toFixed2 num_text x =
     (if \<bar>x\<bar> \<ge> 10 ^ 21 then num_text x
      else
        (let n = nat \<lfloor>\<bar>x\<bar> * 100 + 1 / 2\<rfloor>
         in (if x < 0 then ''-'' else []) @ dec_nat (n div 100) @ ''.''
            @ [digit_char (n mod 100 div 10), digit_char (n mod 10)]))"

text \<open>\<open>a || b\<close> on a property that may be missing, and the truth of such a property.\<close>

definition or_else :: "jsval option \<Rightarrow> jsval \<Rightarrow> jsval" where
  "or_else a b = (case a of None \<Rightarrow> b | Some v \<Rightarrow> if truthy v then v else b)"

definition truthy_opt :: "jsval option \<Rightarrow> bool" where
  "truthy_opt a = (case a of None \<Rightarrow> False | Some v \<Rightarrow> truthy v)"

text \<open>\<open>if (v) parts.push(v)\<close>\<close>

definition push_if :: "jsval option \<Rightarrow> jsval list \<Rightarrow> jsval list" where
  "push_if a parts = (case a of None \<Rightarrow> parts | Some v \<Rightarrow> if truthy v then parts @ [v] else parts)"

text \<open>\<open>key in data\<close> once an earlier \<open>in\<close> on \<open>data\<close> has not raised.\<close>

definition has :: "string \<Rightarrow> jsval \<Rightarrow> bool" where
  "has k data = (js_in k data = Inr True)"

definition names_en :: "jsval \<Rightarrow> string \<Rightarrow> jsval option" where
  "names_en data k = chain (chain (get_prop data k) ''names'') ''en''"

text \<open>The branch \<open>"city" in data || "location" in data\<close>.\<close>

definition format_city :: "(rat \<Rightarrow> string) \<Rightarrow> jsval \<Rightarrow> thrown + string" where
  "format_city num_text data =
     (let parts = push_if (names_en data ''country'') (push_if (names_en data ''city'') []);
          result = js_join '', '' (map (toString num_text) parts);
          latitude = chain (get_prop data ''location'') ''latitude'';
          longitude = chain (get_prop data ''location'') ''longitude''
      in if truthy_opt latitude \<and> truthy_opt longitude then
           (case (latitude, longitude) of
              (Some (JNum la), Some (JNum lo)) \<Rightarrow>
                (let coordinates = ''('' @ toFixed2 num_text la @ '', '' @ toFixed2 num_text lo @ '')'';
                     result2 = (if result \<noteq> [] then result @ '' '' @ coordinates else coordinates)
                 in if length parts = 1 then Inr (result2 @ '' [City not specified]'')
                    else Inr (if result2 \<noteq> [] then result2 else ''Unknown Location''))
            | _ \<Rightarrow> Inl TypeError)
         else if length parts = 1 then Inr (result @ '' [City not specified]'')
         else Inr (if result \<noteq> [] then result else ''Unknown Location''))"

text \<open>The branch \<open>"country" in data\<close>.\<close>

definition format_country :: "(rat \<Rightarrow> string) \<Rightarrow> jsval \<Rightarrow> string" where
  "format_country num_text data =
     (let countryParts = push_if (names_en data ''country'') [];
          continent = names_en data ''continent'';
          countryParts2 =
            (case continent of
               None \<Rightarrow> countryParts
             | Some c \<Rightarrow>
                 if truthy c then countryParts @ [JStr (''('' @ toString num_text c @ '')'')]
                 else countryParts);
          result = js_join '' '' (map (toString num_text) countryParts2)
      in if result \<noteq> [] then result else ''Unknown Country'')"

definition formatLookupData :: "(rat \<Rightarrow> string) \<Rightarrow> string \<Rightarrow> jsval \<Rightarrow> thrown + string" where
  "formatLookupData num_text ip data =
     (if \<not> truthy data then Inr ''No data found''
      else if ip = ''1.1.1.1'' then Inr ''Global (Cloudflare DNS)''
      else
        (case js_in ''autonomous_system_number'' data of
           Inl e \<Rightarrow> Inl e
         | Inr asn \<Rightarrow>
             if asn then
               Inr (''AS''
                    @ toString num_text
                        (or_else (get_prop data ''autonomous_system_number'') (JStr ''?????''))
                    @ '' - ''
                    @ toString num_text
                        (or_else (get_prop data ''autonomous_system_organization'')
                           (JStr ''Unknown'')))
             else if has ''city'' data \<or> has ''location'' data then format_city num_text data
             else if has ''country'' data then Inr (format_country num_text data)
             else Inr ''Unknown''))"


section \<open>Readers to run the lookups on\<close>

text \<open>
  A reader does not change under lookups when \<open>get\<close> hands its reader back as it
  was; the reader of the library is such a reader as long as it keeps no cache.
\<close>

definition reader_pure :: "'r get \<Rightarrow> bool" where
  "reader_pure get = (\<forall>r ip. snd (get r ip) = r)"

text \<open>
  The address a dotted quad denotes: its four decimal parts, most significant first.
\<close>

definition ipv4_bits :: "string \<Rightarrow> 32 word option" where
  "ipv4_bits s =
     (case map Number (js_split CHR ''.'' s) of
        [Some a, Some b, Some c, Some d] \<Rightarrow>
          Some (push_bit 24 (word_of_nat a) + push_bit 16 (word_of_nat b)
                + push_bit 8 (word_of_nat c) + word_of_nat d)
      | _ \<Rightarrow> None)"

text \<open>
  An address lies in the block \<open>network/length\<close> when its bits, masked to the first
  \<open>length\<close> of them, are the bits of \<open>network\<close>.
\<close>

definition in_block :: "string \<Rightarrow> string \<Rightarrow> nat \<Rightarrow> bool" where
  "in_block ip network len =
     (case (ipv4_bits ip, ipv4_bits network) of
        (Some w, Some n) \<Rightarrow> w AND NOT (mask (32 - len)) = n
      | _ \<Rightarrow> False)"

text \<open>The bits of an address, most significant first.\<close>

definition bits_of :: "32 word \<Rightarrow> bool list" where
  "bits_of w = map (\<lambda>i. bit w (31 - i)) [0..<32]"

text \<open>
  Modelled from the spec: the search tree of the reader, which belongs to the library
  and is not part of the sources. A record of a node is another node, a pointer to
  data or the mark of no data; the walk starts at the root, takes the left record on a
  0 bit and the right one on a 1 bit, and stops at data or at no data. Its depth is the
  number of bits it has consumed. \<open>Corrupt\<close> is a pointer to data that cannot be
  decoded.
\<close>

datatype tree = NoData | Data jsval | Corrupt | Node tree tree

fun walk :: "tree \<Rightarrow> bool list \<Rightarrow> (thrown + jsval) \<times> nat" where
  "walk (Node l r) (b # bs) = (case walk (if b then r else l) bs of (v, d) \<Rightarrow> (v, Suc d))"
| "walk (Node l r) [] = (Inr JNull, 0)"
| "walk (Data v) bs = (Inr v, 0)"
| "walk Corrupt bs = (Inl (ErrorObj ''Unknown type''), 0)"
| "walk NoData bs = (Inr JNull, 0)"

text \<open>Modelled from the spec: the lookup of a reader over an IPv4 tree; it raises on
  a string that is no dotted quad.\<close>

definition tree_get :: "tree get" where
  "tree_get t ip =
     (case ipv4_bits ip of
        None \<Rightarrow> (Inl (ErrorObj ''Invalid address''), t)
      | Some w \<Rightarrow> (fst (walk t (bits_of w)), t))"


text \<open>
  \<open>JSON.stringify\<close> on decoded values whose object keys are pairwise distinct and no
  array indices: strings are quoted with the escapes of the language, members keep
  their order, and a \<open>BigInt\<close> anywhere in the value raises a \<open>TypeError\<close>.
\<close>

definition hex_char :: "nat \<Rightarrow> char" where
  "hex_char d = (if d < 10 then char_of (48 + d) else char_of (87 + d))"

definition escape :: "char \<Rightarrow> string" where
  "escape c =
     (let n = (of_char c :: nat)
      in if n = 34 then [char_of (92 :: nat), c]
         else if n = 92 then [c, c]
         else if n = 8 then [char_of (92 :: nat), CHR ''b'']
         else if n = 12 then [char_of (92 :: nat), CHR ''f'']
         else if n = 10 then [char_of (92 :: nat), CHR ''n'']
         else if n = 13 then [char_of (92 :: nat), CHR ''r'']
         else if n = 9 then [char_of (92 :: nat), CHR ''t'']
         else if n < 32 then [char_of (92 :: nat), CHR ''u'', CHR ''0'', CHR ''0'',
                              hex_char (n div 16), hex_char (n mod 16)]
         else [c])"

definition quote :: "string \<Rightarrow> string" where
  "quote s = [char_of (34 :: nat)] @ concat (map escape s) @ [char_of (34 :: nat)]"

fun json_text :: "(rat \<Rightarrow> string) \<Rightarrow> jsval \<Rightarrow> thrown + string"
  and json_elements :: "(rat \<Rightarrow> string) \<Rightarrow> jsval list \<Rightarrow> thrown + string"
  and json_members :: "(rat \<Rightarrow> string) \<Rightarrow> (string \<times> jsval) list \<Rightarrow> thrown + string"
  and json_member :: "(rat \<Rightarrow> string) \<Rightarrow> string \<times> jsval \<Rightarrow> thrown + string" where
  "json_text num_text JNull = Inr ''null''"
| "json_text num_text (JBool b) = Inr (if b then ''true'' else ''false'')"
| "json_text num_text (JNum x) = Inr (num_text x)"
| "json_text num_text (JBigInt n) = Inl TypeError"
| "json_text num_text (JStr s) = Inr (quote s)"
| "json_text num_text (JArr xs) =
     (case json_elements num_text xs of Inl e \<Rightarrow> Inl e | Inr s \<Rightarrow> Inr (''['' @ s @ '']''))"
| "json_text num_text (JObj kvs) =
     (case json_members num_text kvs of Inl e \<Rightarrow> Inl e | Inr s \<Rightarrow> Inr (''{'' @ s @ ''}''))"
| "json_elements num_text [] = Inr []"
| "json_elements num_text [v] = json_text num_text v"
| "json_elements num_text (v # w # ws) =
     (case json_text num_text v of
        Inl e \<Rightarrow> Inl e
      | Inr s \<Rightarrow>
          (case json_elements num_text (w # ws) of
             Inl e \<Rightarrow> Inl e
           | Inr t \<Rightarrow> Inr (s @ '','' @ t)))"
| "json_members num_text [] = Inr []"
| "json_members num_text [kv] = json_member num_text kv"
| "json_members num_text (kv # kw # kws) =
     (case json_member num_text kv of
        Inl e \<Rightarrow> Inl e
      | Inr s \<Rightarrow>
          (case json_members num_text (kw # kws) of
             Inl e \<Rightarrow> Inl e
           | Inr t \<Rightarrow> Inr (s @ '','' @ t)))"
| "json_member num_text (k, v) =
     (case json_text num_text v of Inl e \<Rightarrow> Inl e | Inr s \<Rightarrow> Inr (quote k @ '':'' @ s))"

text \<open>The text of a number that is an integer below \<open>10^21\<close>.\<close>

definition int_text :: "rat \<Rightarrow> string" where
  "int_text x = (if x < 0 then ''-'' else []) @ dec_nat (nat \<lfloor>\<bar>x\<bar>\<rfloor>)"

subsection \<open>A small dataset\<close>

definition record_a :: jsval where
  "record_a = JObj [(''country'', JObj [(''iso_code'', JStr ''FR''),
                                         (''names'', JObj [(''en'', JStr ''France'')])])]"

definition record_b :: jsval where
  "record_b = JObj [(''country'', JObj [(''iso_code'', JStr ''DE''),
                                         (''names'', JObj [(''en'', JStr ''Germany'')])])]"

text \<open>A record of a dataset that stores an identifier as a 64-bit integer.\<close>

definition record_c :: jsval where
  "record_c = JObj [(''country'', JObj [(''geoname_id'', JBigInt 6252001),
                                         (''iso_code'', JStr ''US'')])]"

text \<open>\<open>0.0.0.0/2\<close> and \<open>64.0.0.0/3\<close> hold \<open>record_a\<close>, \<open>96.0.0.0/3\<close> and \<open>192.0.0.0/3\<close>
  hold \<open>record_b\<close>, \<open>128.0.0.0/2\<close> points to data that cannot be decoded,
  \<open>224.0.0.0/4\<close> has no data and \<open>240.0.0.0/4\<close> holds \<open>record_c\<close>.\<close>

definition demo_tree :: tree where
  "demo_tree =
     Node (Node (Data record_a) (Node (Data record_a) (Data record_b)))
          (Node Corrupt (Node (Data record_b) (Node NoData (Data record_c))))"



definition demo_dataset :: MMDBDataset where
  "demo_dataset = \<lparr>name = ''GeoLite2-Country'', url = ''mmdb/GeoLite2-Country.mmdb'',
                     type = ''country''\<rparr>"

definition demo_context :: "tree MMDBContext" where
  "demo_context = \<lparr>dataset = Some demo_dataset, reader = Some demo_tree\<rparr>"

text \<open>The same tree, loaded as a City dataset; its records have no city or location.\<close>

definition city_context :: "tree MMDBContext" where
  "city_context =
     \<lparr>dataset = Some \<lparr>name = ''GeoLite2-City'', url = ''mmdb/GeoLite2-City.mmdb'', type = ''city''\<rparr>,
      reader = Some demo_tree\<rparr>"

text \<open>The reader of a dataset in which every address, IPv6 or IPv4, has the record \<open>v\<close>.\<close>

definition const_get :: "jsval \<Rightarrow> unit get" where
  "const_get v r ip = (Inr v, r)"

definition const_context :: "unit MMDBContext" where
  "const_context = \<lparr>dataset = Some demo_dataset, reader = Some ()\<rparr>"


section \<open>The matcher decides the patterns\<close>

lemma conc_empty [simp]: "conc {} B = {}" "conc A {} = {}"
  by (auto simp: conc_def)

lemma conc_eps [simp]: "conc {[]} B = B" "conc A {[]} = A"
  by (auto simp: conc_def)

lemma lang_mk_alt [simp]: "lang (mk_alt r s) = lang r \<union> lang s"
  by (induction r s rule: mk_alt.induct) auto

lemma lang_mk_seq [simp]: "lang (mk_seq r s) = conc (lang r) (lang s)"
  by (induction r s rule: mk_seq.induct) auto

lemma nullable_iff: "nullable r \<longleftrightarrow> [] \<in> lang r"
  by (induction r) (auto simp: conc_def intro: star.intros)

lemma cons_in_conc:
  "c # w \<in> conc A B \<longleftrightarrow>
     ([] \<in> A \<and> c # w \<in> B) \<or> (\<exists>u v. w = u @ v \<and> c # u \<in> A \<and> v \<in> B)"
  by (auto simp: conc_def Cons_eq_append_conv)

lemma cons_in_star:
  "c # w \<in> star A \<longleftrightarrow> (\<exists>u v. w = u @ v \<and> c # u \<in> A \<and> v \<in> star A)"
proof
  assume "c # w \<in> star A"
  then show "\<exists>u v. w = u @ v \<and> c # u \<in> A \<and> v \<in> star A"
  proof (induction "c # w" arbitrary: w rule: star.induct)
    case (star_step u v)
    then show ?case by (cases u) auto
  qed
next
  assume "\<exists>u v. w = u @ v \<and> c # u \<in> A \<and> v \<in> star A"
  then obtain u v where "w = u @ v" "c # u \<in> A" "v \<in> star A" by blast
  then show "c # w \<in> star A"
    using star.star_step [of "c # u" A v] by simp
qed

lemma lang_deriv: "w \<in> lang (deriv c r) \<longleftrightarrow> c # w \<in> lang r"
proof (induction r arbitrary: w)
  case (Seq r s)
  have "w \<in> lang (deriv c (Seq r s)) \<longleftrightarrow>
          (\<exists>u v. w = u @ v \<and> u \<in> lang (deriv c r) \<and> v \<in> lang s)
          \<or> (nullable r \<and> w \<in> lang (deriv c s))"
    by (auto simp: conc_def)
  also have "\<dots> \<longleftrightarrow>
          (\<exists>u v. w = u @ v \<and> c # u \<in> lang r \<and> v \<in> lang s)
          \<or> ([] \<in> lang r \<and> c # w \<in> lang s)"
    by (simp add: Seq nullable_iff)
  also have "\<dots> \<longleftrightarrow> c # w \<in> lang (Seq r s)"
    by (auto simp: cons_in_conc)
  finally show ?case .
next
  case (Star r)
  have "w \<in> lang (deriv c (Star r)) \<longleftrightarrow>
          (\<exists>u v. w = u @ v \<and> u \<in> lang (deriv c r) \<and> v \<in> star (lang r))"
    by (auto simp: conc_def)
  also have "\<dots> \<longleftrightarrow> c # w \<in> lang (Star r)"
    by (simp add: Star cons_in_star)
  finally show ?case .
qed auto

lemma lang_derivs: "w \<in> lang (derivs s r) \<longleftrightarrow> s @ w \<in> lang r"
  by (induction s arbitrary: r) (auto simp: lang_deriv)

lemma regex_test_iff: "regex_test r s \<longleftrightarrow> s \<in> lang r"
  by (simp add: regex_test_def nullable_iff lang_derivs)

lemma in_range_digit:
  "in_range CHR ''0'' CHR ''5'' c \<Longrightarrow> is_digit c"
  "in_range CHR ''0'' CHR ''4'' c \<Longrightarrow> is_digit c"
  "in_range CHR ''0'' CHR ''1'' c \<Longrightarrow> is_digit c"
  "in_range CHR ''0'' CHR ''9'' c \<Longrightarrow> is_digit c"
  "is_digit CHR ''2''" "is_digit CHR ''5''"
  by (auto simp: in_range_def is_digit_def)

lemma octet4_digits:
  assumes "w \<in> lang octet4"
  shows "w \<noteq> [] \<and> list_all is_digit w"
  using assms
  by (auto simp: octet4_def digit_def opt_def conc_def in_range_digit)

lemma ipv4_structure:
  assumes "s \<in> lang ipv4Regex"
  obtains a b c d where "s = a @ CHR ''.'' # b @ CHR ''.'' # c @ CHR ''.'' # d"
    and "a \<in> lang octet4" and "b \<in> lang octet4" and "c \<in> lang octet4" and "d \<in> lang octet4"
proof -
  from assms obtain a b c d where "s = ((a @ ''.'') @ (b @ ''.'') @ (c @ ''.'') @ []) @ d"
    and "a \<in> lang octet4" and "b \<in> lang octet4" and "c \<in> lang octet4" and "d \<in> lang octet4"
    by (auto simp: ipv4Regex_def eval_nat_numeral conc_def)
  then show ?thesis using that by simp
qed

lemma not_dot_digit: "is_digit c \<Longrightarrow> c \<noteq> CHR ''.''"
  by (auto simp: is_digit_def in_range_def)

lemma split_no_sep: "sep \<notin> set p \<Longrightarrow> js_split sep p = [p]"
  by (induction p) auto

lemma split_append: "sep \<notin> set p \<Longrightarrow> js_split sep (p @ sep # rest) = p # js_split sep rest"
  by (induction p) auto

lemma digits_no_dot: "list_all is_digit w \<Longrightarrow> CHR ''.'' \<notin> set w"
  by (auto simp: list_all_iff dest: not_dot_digit)

lemma ipv4_parts:
  assumes "regex_test ipv4Regex ip"
  shows "\<exists>na nb nc nd. map Number (js_split CHR ''.'' ip) = [Some na, Some nb, Some nc, Some nd]"
    and "CHR ''.'' \<in> set ip"
proof -
  from assms have "ip \<in> lang ipv4Regex" by (simp add: regex_test_iff)
  then obtain a b c d where ip: "ip = a @ CHR ''.'' # b @ CHR ''.'' # c @ CHR ''.'' # d"
    and "a \<in> lang octet4" and "b \<in> lang octet4" and "c \<in> lang octet4" and "d \<in> lang octet4"
    by (rule ipv4_structure)
  then have dg: "list_all is_digit a" "list_all is_digit b" "list_all is_digit c" "list_all is_digit d"
    by (auto dest: octet4_digits)
  then have "js_split CHR ''.'' ip = [a, b, c, d]"
    by (simp add: ip split_append split_no_sep digits_no_dot)
  moreover from dg obtain na nb nc nd where "Number a = Some na" "Number b = Some nb"
    "Number c = Some nc" "Number d = Some nd"
    by (auto simp: Number_def)
  ultimately show "\<exists>na nb nc nd. map Number (js_split CHR ''.'' ip) = [Some na, Some nb, Some nc, Some nd]"
    by simp
  show "CHR ''.'' \<in> set ip" by (simp add: ip)
qed

text \<open>A valid IPv4 literal has four decimal parts below 256, and they are its address.\<close>

lemma octet4_value:
  assumes "w \<in> lang octet4"
  shows "\<exists>n. Number w = Some n \<and> n < 256"
  using assms
  by (auto simp: octet4_def digit_def opt_def conc_def Number_def is_digit_def in_range_def
        digit_val_def)

lemma ipv4_literal_bits:
  assumes "regex_test ipv4Regex ip"
  shows "\<exists>a b c d. a < 256 \<and> b < 256 \<and> c < 256 \<and> d < 256
           \<and> map Number (js_split CHR ''.'' ip) = [Some a, Some b, Some c, Some d]
           \<and> ipv4_bits ip = Some (word_of_nat (a * 2 ^ 24 + b * 2 ^ 16 + c * 2 ^ 8 + d))"
proof -
  from assms have "ip \<in> lang ipv4Regex" by (simp add: regex_test_iff)
  then obtain a b c d where ip: "ip = a @ CHR ''.'' # b @ CHR ''.'' # c @ CHR ''.'' # d"
    and oct: "a \<in> lang octet4" "b \<in> lang octet4" "c \<in> lang octet4" "d \<in> lang octet4"
    by (rule ipv4_structure)
  then have dg: "list_all is_digit a" "list_all is_digit b" "list_all is_digit c" "list_all is_digit d"
    by (auto dest: octet4_digits)
  then have sp: "js_split CHR ''.'' ip = [a, b, c, d]"
    by (simp add: ip split_append split_no_sep digits_no_dot)
  from oct obtain na nb nc nd where n: "Number a = Some na" "Number b = Some nb"
    "Number c = Some nc" "Number d = Some nd" and lt: "na < 256" "nb < 256" "nc < 256" "nd < 256"
    by (meson octet4_value)
  have "ipv4_bits ip = Some (word_of_nat (na * 2 ^ 24 + nb * 2 ^ 16 + nc * 2 ^ 8 + nd))"
    by (simp add: ipv4_bits_def sp n push_bit_eq_mult)
  with sp n lt show ?thesis by auto
qed

section \<open>Decimal texts and the bytes of an address\<close>

declare dec_nat.simps [simp del]

lemma digit_char_props:
  assumes "d < 10"
  shows "is_digit (digit_char d)" and "digit_val (digit_char d) = d"
  using assms by (simp_all add: is_digit_def in_range_def digit_char_def digit_val_def)

lemma Number_snoc:
  assumes "Number ds = Some n" and "is_digit c"
  shows "Number (ds @ [c]) = Some (10 * n + digit_val c)"
  using assms by (simp add: Number_def split: if_splits)

lemma dec_nat_Number: "list_all is_digit (dec_nat n) \<and> Number (dec_nat n) = Some n"
proof (induction n rule: dec_nat.induct)
  case (1 n)
  show ?case
  proof (cases "n < 10")
    case True
    then show ?thesis
      by (simp add: dec_nat.simps [of n] Number_def digit_char_props)
  next
    case False
    with 1 have ih: "list_all is_digit (dec_nat (n div 10))"
      "Number (dec_nat (n div 10)) = Some (n div 10)"
      by simp_all
    have d: "is_digit (digit_char (n mod 10))" "digit_val (digit_char (n mod 10)) = n mod 10"
      by (simp_all add: digit_char_props)
    from False ih d show ?thesis
      by (simp add: dec_nat.simps [of n] Number_snoc)
  qed
qed

lemma bytes_of_word:
  fixes w :: "32 word"
  shows "push_bit 24 (drop_bit 24 w AND 255) + push_bit 16 (drop_bit 16 w AND 255)
         + push_bit 8 (drop_bit 8 w AND 255) + (w AND 255) = w"
proof -
  have m: "(255 :: 32 word) = mask 8" by (simp add: mask_eq_exp_minus_1)
  let ?a = "push_bit 24 (drop_bit 24 w AND mask 8)"
  let ?b = "push_bit 16 (drop_bit 16 w AND mask 8)"
  let ?c = "push_bit 8 (drop_bit 8 w AND mask 8)"
  let ?d = "w AND mask 8"
  have 1: "?a + ?b = ?a OR ?b"
    by (rule disjunctive_add) (auto simp: bit_simps)
  have 2: "(?a OR ?b) + ?c = (?a OR ?b) OR ?c"
    by (rule disjunctive_add) (auto simp: bit_simps)
  have 3: "((?a OR ?b) OR ?c) + ?d = ((?a OR ?b) OR ?c) OR ?d"
    by (rule disjunctive_add) (auto simp: bit_simps)
  have "((?a OR ?b) OR ?c) OR ?d = w"
  proof (rule bit_eqI)
    fix n
    assume "possible_bit TYPE(32 word) n"
    then have n: "n < 32" by simp
    consider "n < 8" | "8 \<le> n" "n < 16" | "16 \<le> n" "n < 24" | "24 \<le> n"
      by linarith
    then show "bit (((?a OR ?b) OR ?c) OR ?d) n \<longleftrightarrow> bit w n"
      using n by cases (auto simp: bit_simps)
  qed
  with 1 2 3 show ?thesis by (simp add: m)
qed

lemma dotted_split:
  "map Number (js_split CHR ''.'' (dotted w)) =
     [Some (unat (drop_bit 24 w AND 255)), Some (unat (drop_bit 16 w AND 255)),
      Some (unat (drop_bit 8 w AND 255)), Some (unat (w AND 255))]"
proof -
  have nd: "CHR ''.'' \<notin> set (dec_nat n)" for n
    using dec_nat_Number [of n] by (auto simp: list_all_iff is_digit_def in_range_def)
  show ?thesis
    by (simp add: dotted_def nd dec_nat_Number split_append split_no_sep)
qed

lemma bytes_of_word_nat:
  fixes w :: "32 word"
  shows "push_bit 24 (word_of_nat (unat (drop_bit 24 w AND 255)))
         + push_bit 16 (word_of_nat (unat (drop_bit 16 w AND 255)))
         + push_bit 8 (word_of_nat (unat (drop_bit 8 w AND 255)))
         + word_of_nat (unat (w AND 255)) = w"
  using bytes_of_word [of w] by (simp only: of_nat_unat ucast_id)

lemma ipv4_bits_dotted: "ipv4_bits (dotted w) = Some w"
  by (simp only: ipv4_bits_def dotted_split list.case option.case bytes_of_word_nat)

lemma ToInt32_ipInt:
  assumes "map Number (js_split CHR ''.'' ip) = [Some a, Some b, Some c, Some d]"
  shows "ToInt32 (ipInt_of ip) =
           push_bit 24 (word_of_nat a) + push_bit 16 (word_of_nat b)
           + push_bit 8 (word_of_nat c) + word_of_nat d"
  using assms by (simp add: ipInt_of_def part_def ToInt32_def shl_def)

lemma ipv4_bits_ipInt:
  assumes "map Number (js_split CHR ''.'' ip) = [Some a, Some b, Some c, Some d]"
  shows "ipv4_bits ip = Some (ToInt32 (ipInt_of ip))"
  using assms by (simp add: ToInt32_ipInt ipv4_bits_def)

lemma all_ones: "(4294967295 :: 32 word) = - 1"
  by simp

lemma prefix_mask_eq: "p \<le> 32 \<Longrightarrow> 0 < p \<Longrightarrow> prefix_mask p = NOT (mask (32 - p))"
  by (simp add: prefix_mask_def shl_def ToInt32_def all_ones)

lemma alternate_outside:
  assumes "bitno < 32"
  shows "alternateIP ipInt bitno AND prefix_mask (bitno + 1) \<noteq> currentNetwork ipInt (bitno + 1)"
proof
  let ?w = "ToInt32 ipInt"
  let ?k = "31 - bitno"
  assume eq: "alternateIP ipInt bitno AND prefix_mask (bitno + 1) = currentNetwork ipInt (bitno + 1)"
  from assms have pm: "prefix_mask (Suc bitno) = NOT (mask ?k)"
    by (simp add: prefix_mask_eq)
  from assms have sh: "shl (Some 1) ?k = push_bit ?k 1"
    by (simp add: shl_def ToInt32_def)
  have k: "?k < 32" by arith
  from k have "bit (alternateIP ipInt bitno AND prefix_mask (bitno + 1)) ?k \<longleftrightarrow> \<not> bit ?w ?k"
    by (simp add: alternateIP_def pm sh bit_simps)
  moreover from k have "bit (currentNetwork ipInt (bitno + 1)) ?k \<longleftrightarrow> bit ?w ?k"
    by (simp add: currentNetwork_def pm bit_simps)
  ultimately show False using eq by simp
qed

lemma dec_nat_32: "dec_nat 32 = ''32''"
  by code_simp

lemma dec_nat_128: "dec_nat 128 = ''128''"
  by code_simp

section \<open>The readers of the examples\<close>


lemma const_get_pure: "reader_pure (const_get v)"
  by (simp add: reader_pure_def const_get_def)

lemma demo_context_loaded:
  "dataset demo_context = Some demo_dataset" "reader demo_context = Some demo_tree"
  by (simp_all add: demo_context_def)

lemma const_context_loaded:
  "dataset const_context = Some demo_dataset" "reader const_context = Some ()"
  by (simp_all add: const_context_def)

section \<open>The record classifier and the display\<close>

lemma is_number_iff: "is_number v \<longleftrightarrow> (\<exists>x. v = Some (JNum x))"
  by (cases v rule: is_number.cases) auto

text \<open>
  C7, as the code has it. On a decoded map the three shape predicates answer by its
  keys: City-shaped iff it has one of \<open>city\<close>, \<open>location\<close>, \<open>postal\<close>, \<open>subdivisions\<close>;
  Country-shaped iff it has \<open>country\<close> or \<open>continent\<close>; ASN-shaped iff it has
  \<open>autonomous_system_number\<close> and the value of that key is a number.
\<close>

theorem classifier_shapes:
  "isAsnResponse (JObj kvs) =
     Inr (''autonomous_system_number'' \<in> set (map fst kvs)
          \<and> (\<exists>x. map_of kvs ''autonomous_system_number'' = Some (JNum x)))
   \<and> isCityResponse (JObj kvs) =
     Inr (''city'' \<in> set (map fst kvs) \<or> ''location'' \<in> set (map fst kvs)
          \<or> ''postal'' \<in> set (map fst kvs) \<or> ''subdivisions'' \<in> set (map fst kvs))
   \<and> isCountryResponse (JObj kvs) =
     Inr (''country'' \<in> set (map fst kvs) \<or> ''continent'' \<in> set (map fst kvs))"
  by (simp add: isAsnResponse_def isCityResponse_def isCountryResponse_def is_number_iff)

text \<open>
  C7 as stated fails: a map that has the key \<open>autonomous_system_number\<close> with a string
  for its value is not ASN-shaped.
\<close>

theorem isAsnResponse_key_counterexample:
  "''autonomous_system_number'' \<in> set (map fst [(''autonomous_system_number'', JStr ''AS64500'')])
   \<and> isAsnResponse (JObj [(''autonomous_system_number'', JStr ''AS64500'')]) = Inr False"
  by (simp add: isAsnResponse_def)

text \<open>
  C9. For the address \<open>1.1.1.1\<close> and any record (any value that is not falsy),
  \<open>formatLookupData\<close> returns the fixed text \<open>Global (Cloudflare DNS)\<close>, whatever the
  record holds.
\<close>

theorem formatLookupData_cloudflare:
  "truthy data \<Longrightarrow> formatLookupData num_text ''1.1.1.1'' data = Inr ''Global (Cloudflare DNS)''"
  by (simp add: formatLookupData_def)

theorem formatLookupData_cloudflare_witness:
  "truthy record_b
   \<and> formatLookupData int_text ''1.1.1.1'' record_b = Inr ''Global (Cloudflare DNS)''"
proof -
  have t: "truthy record_b" by (simp add: record_b_def)
  from formatLookupData_cloudflare [OF t, of int_text] t show ?thesis by simp
qed

section \<open>Looking an address up\<close>

lemma lookupIP_loaded:
  assumes "dataset context = Some d" and "reader context = Some r" and "isValidIP ip"
  shows "fst (lookupIP get context ip) =
           (case fst (get r ip) of
              Inl e \<Rightarrow> Inl (LookupFailed e)
            | Inr result \<Rightarrow>
                if truthy result
                then (case transformResult result (type d) of
                        Inl e \<Rightarrow> Inl (LookupFailed e) | Inr v \<Rightarrow> Inr v)
                else Inr JNull)"
  using assms by (simp add: lookupIP_def split: prod.splits sum.splits)

lemma lookupIP_not_loaded:
  assumes "dataset context = None \<or> reader context = None"
  shows "lookupIP get context ip = (Inl NoDatasetLoaded, context)"
  using assms by (auto simp: lookupIP_def split: option.splits)

text \<open>
  C4. On a loaded context, \<open>lookupIP\<close> of \<open>256.1.1.1\<close> is the error
  \<open>Invalid IP address format\<close>, since \<open>isValidIP\<close> rejects the string; \<open>lookupIP\<close> of a
  valid address for which the reader finds no data is \<open>null\<close>, which is no error. The
  two outcomes differ.
\<close>

theorem lookupIP_invalid_or_not_found:
  assumes "dataset context = Some d" and "reader context = Some r"
    and "isValidIP ip" and "fst (get r ip) = Inr JNull"
  shows "\<not> isValidIP ''256.1.1.1''
         \<and> fst (lookupIP get context ''256.1.1.1'') = Inl InvalidIPFormat
         \<and> fst (lookupIP get context ip) = Inr JNull
         \<and> fst (lookupIP get context ''256.1.1.1'') \<noteq> fst (lookupIP get context ip)"
proof -
  have inv: "\<not> isValidIP ''256.1.1.1''" by code_simp
  with assms(1,2) have "fst (lookupIP get context ''256.1.1.1'') = Inl InvalidIPFormat"
    by (simp add: lookupIP_def)
  moreover from assms have "fst (lookupIP get context ip) = Inr JNull"
    by (simp add: lookupIP_loaded)
  ultimately show ?thesis using inv by simp
qed

theorem lookupIP_invalid_or_not_found_witness:
  "dataset demo_context = Some demo_dataset \<and> reader demo_context = Some demo_tree
   \<and> isValidIP ''224.1.2.3'' \<and> fst (tree_get demo_tree ''224.1.2.3'') = Inr JNull
   \<and> \<not> isValidIP ''256.1.1.1''
   \<and> fst (lookupIP tree_get demo_context ''256.1.1.1'') = Inl InvalidIPFormat
   \<and> fst (lookupIP tree_get demo_context ''224.1.2.3'') = Inr JNull
   \<and> fst (lookupIP tree_get demo_context ''256.1.1.1'')
       \<noteq> fst (lookupIP tree_get demo_context ''224.1.2.3'')"
proof -
  have c: "isValidIP ''224.1.2.3''" by code_simp
  have f: "fst (tree_get demo_tree ''224.1.2.3'') = Inr JNull" by code_simp
  from lookupIP_invalid_or_not_found [where get = tree_get, OF demo_context_loaded c f]
  show ?thesis using demo_context_loaded c f by simp
qed

text \<open>
  C6, as the code has it. When the reader decodes a map for a valid address,
  \<open>lookupIP\<close> returns that map unchanged only if it has the shape of the selected
  dataset type, or if the type is none of \<open>asn\<close>, \<open>city\<close>, \<open>country\<close>; otherwise it
  returns the fallback record of the type: number 0 and organization \<open>Unknown\<close> for
  \<open>asn\<close>, the empty record for \<open>city\<close> and \<open>country\<close>.
\<close>

theorem lookupIP_returns_guarded_value:
  assumes "dataset context = Some d" and "reader context = Some r" and "isValidIP ip"
    and "fst (get r ip) = Inr (JObj kvs)"
  shows "fst (lookupIP get context ip) =
           Inr (if type d = ''asn''
                then (if isAsnResponse (JObj kvs) = Inr True then JObj kvs else asn_fallback)
                else if type d = ''city''
                then (if isCityResponse (JObj kvs) = Inr True then JObj kvs else JObj [])
                else if type d = ''country''
                then (if isCountryResponse (JObj kvs) = Inr True then JObj kvs else JObj [])
                else JObj kvs)"
  using assms
  by (simp add: lookupIP_loaded transformResult_def isAsnResponse_def isCityResponse_def
        isCountryResponse_def)

theorem lookupIP_returns_guarded_value_witness:
  "dataset city_context
     = Some \<lparr>name = ''GeoLite2-City'', url = ''mmdb/GeoLite2-City.mmdb'', type = ''city''\<rparr>
   \<and> reader city_context = Some demo_tree
   \<and> isValidIP ''96.0.0.0''
   \<and> fst (tree_get demo_tree ''96.0.0.0'') = Inr record_b
   \<and> fst (lookupIP tree_get city_context ''96.0.0.0'') = Inr (JObj [])"
proof -
  have a: "dataset city_context
     = Some \<lparr>name = ''GeoLite2-City'', url = ''mmdb/GeoLite2-City.mmdb'', type = ''city''\<rparr>"
    by (simp add: city_context_def)
  have b: "reader city_context = Some demo_tree"
    by (simp add: city_context_def)
  have c: "isValidIP ''96.0.0.0''"
    by code_simp
  have d: "fst (tree_get demo_tree ''96.0.0.0'') =
             Inr (JObj [(''country'', JObj [(''iso_code'', JStr ''DE''),
                                            (''names'', JObj [(''en'', JStr ''Germany'')])])])"
    by code_simp
  from lookupIP_returns_guarded_value [where get = tree_get, OF a b c d] a b c d
  show ?thesis
    by (simp add: isCityResponse_def record_b_def)
qed

text \<open>
  C6 as stated fails: on the tree loaded as a City dataset, the reader decodes the
  record of \<open>0.0.0.0\<close>, which has a country and no city, and \<open>lookupIP\<close> returns the
  empty record in its place.
\<close>

theorem lookupIP_fabricates_counterexample:
  "fst (tree_get demo_tree ''0.0.0.0'') = Inr record_a
   \<and> fst (lookupIP tree_get city_context ''0.0.0.0'') = Inr (JObj [])
   \<and> JObj [] \<noteq> record_a"
  by code_simp

section \<open>Searching the block of an address\<close>


lemma pure_snd: "reader_pure get \<Longrightarrow> snd (get r ip) = r"
  by (simp add: reader_pure_def)


lemma ipv4_search_block:
  "fst (ipv4_search get stringify ipInt t bits r) = Some s
     \<Longrightarrow> \<exists>b \<in> set bits. s = networkBlock ipInt (b + 1)"
  by (induction bits arbitrary: r) (auto split: prod.splits sum.splits if_splits)



lemma fst_findIPv4CIDRBlock:
  "fst (findIPv4CIDRBlock get stringify r ip t) =
     (case fst (ipv4_search get stringify (ipInt_of ip) t [0..<32] r) of
        None \<Rightarrow> ip @ ''/32'' | Some s \<Rightarrow> s)"
  by (simp add: findIPv4CIDRBlock_def split: prod.splits option.splits)

lemma fst_findIPv6CIDRBlock:
  "fst (findIPv6CIDRBlock get stringify r ip t) =
     (case fst (ipv6_search get stringify ip t commonPrefixes r) of
        None \<Rightarrow> ip @ ''/128'' | Some s \<Rightarrow> s)"
  by (simp add: findIPv6CIDRBlock_def split: prod.splits option.splits)



lemma findCIDRBlock_loaded:
  assumes "dataset context = Some d" and "reader context = Some r" and "isValidIP ip"
  shows "fst (findCIDRBlock get stringify context ip) =
           (case fst (get r ip) of
              Inl e \<Rightarrow> Inr None
            | Inr targetData \<Rightarrow>
                if truthy targetData
                then (case stringify targetData of
                        Inl e \<Rightarrow> Inr None
                      | Inr targetDataStr \<Rightarrow>
                          Inr (Some (fst (if CHR ''.'' \<in> set ip
                            then findIPv4CIDRBlock get stringify (snd (get r ip)) ip targetDataStr
                            else findIPv6CIDRBlock get stringify (snd (get r ip)) ip targetDataStr))))
                else Inr None)"
  using assms
  by (simp add: findCIDRBlock_def js_includes_def split: prod.splits sum.splits)









text \<open>
  C2, as the code has it. For a valid IPv4 literal that has data on which
  \<open>JSON.stringify\<close> does not raise, on a loaded context, \<open>findCIDRBlock\<close> returns a
  block \<open>network/length\<close> with a length from 1 to 32, and the bits of the literal,
  masked to that length, are the bits of the network.
\<close>

theorem findCIDRBlock_network_is_masked_address:
  assumes "dataset context = Some d" and "reader context = Some r"
    and "regex_test ipv4Regex ip" and "fst (get r ip) = Inr v" and "truthy v"
    and "stringify v = Inr t"
  shows "\<exists>network len. fst (findCIDRBlock get stringify context ip)
             = Inr (Some (network @ ''/'' @ dec_nat len))
           \<and> 1 \<le> len \<and> len \<le> 32 \<and> in_block ip network len"
proof -
  from ipv4_parts(1) [OF assms(3)] obtain a b c e where
    parts: "map Number (js_split CHR ''.'' ip) = [Some a, Some b, Some c, Some e]"
    by auto
  from assms(3) have dot: "CHR ''.'' \<in> set ip" by (rule ipv4_parts(2))
  from assms(3) have valid: "isValidIP ip" by (simp add: isValidIP_def)
  let ?w = "ToInt32 (ipInt_of ip)"
  let ?r1 = "snd (get r ip)"
  from parts have bits: "ipv4_bits ip = Some ?w" by (rule ipv4_bits_ipInt)
  have res: "fst (findCIDRBlock get stringify context ip)
               = Inr (Some (fst (findIPv4CIDRBlock get stringify ?r1 ip t)))"
    using assms(1,2,4,5,6) valid dot by (simp add: findCIDRBlock_loaded)
  show ?thesis
  proof (cases "fst (ipv4_search get stringify (ipInt_of ip) t [0..<32] ?r1)")
    case None
    then have "fst (findIPv4CIDRBlock get stringify ?r1 ip t) = ip @ ''/'' @ dec_nat 32"
      by (simp add: fst_findIPv4CIDRBlock dec_nat_32)
    moreover have "in_block ip ip 32"
      by (simp add: in_block_def bits)
    ultimately show ?thesis using res
      by (intro exI [of _ ip] exI [of _ 32]) simp
  next
    case (Some s)
    then obtain bn where bn: "bn < 32" and s: "s = networkBlock (ipInt_of ip) (bn + 1)"
      using ipv4_search_block [of get stringify "ipInt_of ip" t "[0..<32]" ?r1 s] by auto
    let ?net = "dotted (currentNetwork (ipInt_of ip) (bn + 1))"
    from Some s have "fst (findIPv4CIDRBlock get stringify ?r1 ip t) = ?net @ ''/'' @ dec_nat (bn + 1)"
      by (simp add: fst_findIPv4CIDRBlock networkBlock_def)
    moreover from bn have "in_block ip ?net (bn + 1)"
      by (simp add: in_block_def bits ipv4_bits_dotted currentNetwork_def prefix_mask_eq)
    moreover from bn have "1 \<le> bn + 1 \<and> bn + 1 \<le> 32" by simp
    ultimately show ?thesis using res
      by (intro exI [of _ ?net] exI [of _ "bn + 1"]) simp
  qed
qed

theorem findCIDRBlock_network_is_masked_address_witness:
  "dataset demo_context = Some demo_dataset \<and> reader demo_context = Some demo_tree
   \<and> regex_test ipv4Regex ''96.1.2.3''
   \<and> fst (tree_get demo_tree ''96.1.2.3'') = Inr record_b \<and> truthy record_b
   \<and> json_text int_text record_b
       = Inr ''{\"country\":{\"iso_code\":\"DE\",\"names\":{\"en\":\"Germany\"}}}''
   \<and> (\<exists>network len.
         fst (findCIDRBlock tree_get (json_text int_text) demo_context ''96.1.2.3'')
           = Inr (Some (network @ ''/'' @ dec_nat len))
         \<and> 1 \<le> len \<and> len \<le> 32 \<and> in_block ''96.1.2.3'' network len)"
proof -
  have c: "regex_test ipv4Regex ''96.1.2.3''" by code_simp
  have f: "fst (tree_get demo_tree ''96.1.2.3'') = Inr record_b" by code_simp
  have g: "truthy record_b" by (simp add: record_b_def)
  have t: "json_text int_text record_b
       = Inr ''{\"country\":{\"iso_code\":\"DE\",\"names\":{\"en\":\"Germany\"}}}''" by code_simp
  note w = findCIDRBlock_network_is_masked_address [where get = tree_get
      and stringify = "json_text int_text", OF demo_context_loaded c f g t]
  show ?thesis
    by (intro conjI demo_context_loaded c f g t w)
qed

text \<open>
  C2 as stated fails: \<open>240.0.0.1\<close> is a valid IPv4 literal and \<open>lookupIP\<close> returns its
  record, which holds a \<open>BigInt\<close>; \<open>JSON.stringify\<close> raises on it and \<open>findCIDRBlock\<close>
  returns \<open>null\<close>, no block.
\<close>

theorem findCIDRBlock_bigint_counterexample:
  "regex_test ipv4Regex ''240.0.0.1''
   \<and> fst (lookupIP tree_get demo_context ''240.0.0.1'') = Inr record_c
   \<and> fst (findCIDRBlock tree_get (json_text int_text) demo_context ''240.0.0.1'') = Inr None"
  by code_simp

text \<open>
  C3 does not hold of the code. The search for \<open>64.0.0.0\<close> returns \<open>0.0.0.0/1\<close>, as
  the network address of that block has the record of \<open>64.0.0.0\<close>; the address
  \<open>96.0.0.0\<close> lies in the block and has another record.
\<close>

theorem findCIDRBlock_mixed_block:
  "fst (findCIDRBlock tree_get (json_text int_text) demo_context ''64.0.0.0'') = Inr (Some ''0.0.0.0/1'')
   \<and> in_block ''96.0.0.0'' ''0.0.0.0'' 1
   \<and> fst (tree_get demo_tree ''64.0.0.0'') = Inr record_a
   \<and> fst (tree_get demo_tree ''96.0.0.0'') = Inr record_b
   \<and> record_b \<noteq> record_a"
  by code_simp

text \<open>
  C5, as the code has it. For a valid address on a loaded context, whatever the reader
  and \<open>JSON.stringify\<close> raise, on the address or on a probe, \<open>findCIDRBlock\<close> returns
  no error: it returns a block or \<open>null\<close>, and \<open>null\<close> exactly when the reader raised
  on the address, found no data for it, or \<open>JSON.stringify\<close> raised on that data. A
  failure on the address cannot be told from an address without data.
\<close>

theorem findCIDRBlock_never_fails:
  assumes "dataset context = Some d" and "reader context = Some r" and "isValidIP ip"
  shows "\<exists>res. fst (findCIDRBlock get stringify context ip) = Inr res
           \<and> (res = None \<longleftrightarrow>
                \<not> (\<exists>v t. fst (get r ip) = Inr v \<and> truthy v \<and> stringify v = Inr t))"
proof (cases "fst (get r ip)")
  case (Inl e)
  with assms show ?thesis by (simp add: findCIDRBlock_loaded)
next
  case (Inr v)
  with assms show ?thesis
    by (cases "stringify v") (simp_all add: findCIDRBlock_loaded)
qed

theorem findCIDRBlock_never_fails_witness:
  "dataset demo_context = Some demo_dataset \<and> reader demo_context = Some demo_tree
   \<and> isValidIP ''128.1.2.3''
   \<and> (\<exists>res. fst (findCIDRBlock tree_get (json_text int_text) demo_context ''128.1.2.3'') = Inr res
           \<and> (res = None \<longleftrightarrow>
                \<not> (\<exists>v t. fst (tree_get demo_tree ''128.1.2.3'') = Inr v \<and> truthy v
                          \<and> json_text int_text v = Inr t)))
   \<and> fst (findCIDRBlock tree_get (json_text int_text) demo_context ''128.1.2.3'') = Inr None"
proof -
  have c: "isValidIP ''128.1.2.3''" by code_simp
  have v: "fst (findCIDRBlock tree_get (json_text int_text) demo_context ''128.1.2.3'') = Inr None"
    by code_simp
  note w = findCIDRBlock_never_fails [where get = tree_get and stringify = "json_text int_text",
      OF demo_context_loaded c]
  show ?thesis by (intro conjI demo_context_loaded c w v)
qed

text \<open>
  C5 as stated fails: the reader raises on \<open>128.1.2.3\<close> and the search returns
  \<open>null\<close>, as it does for \<open>224.1.2.3\<close>, which has no data; the reader raises on the
  probe \<open>128.0.0.0\<close> of the search for \<open>192.1.2.3\<close> and the search returns a block.
\<close>

theorem findCIDRBlock_swallows_counterexample:
  "fst (tree_get demo_tree ''128.1.2.3'') = Inl (ErrorObj ''Unknown type'')
   \<and> fst (findCIDRBlock tree_get (json_text int_text) demo_context ''128.1.2.3'') = Inr None
   \<and> fst (tree_get demo_tree ''224.1.2.3'') = Inr JNull
   \<and> fst (findCIDRBlock tree_get (json_text int_text) demo_context ''224.1.2.3'') = Inr None
   \<and> fst (tree_get demo_tree ''128.0.0.0'') = Inl (ErrorObj ''Unknown type'')
   \<and> fst (findCIDRBlock tree_get (json_text int_text) demo_context ''192.1.2.3'') = Inr (Some ''192.0.0.0/2'')"
  by code_simp

lemma ipv6_search_first:
  assumes "fst (get r ip) = Inr v" and "truthy v" and "stringify v = Inr t"
  shows "fst (ipv6_search get stringify ip t (128 # rest) r) =
           Some (js_join '':'' (take 4 (js_split CHR '':'' ip)) @ ''::/'' @ dec_nat 128)"
proof -
  obtain a r1 where g: "get r ip = (a, r1)" by (cases "get r ip")
  with assms show ?thesis by simp
qed

text \<open>
  C10, as the code has it. For a valid address without a dot, on a loaded context
  whose reader lookups leave unchanged, that has data on which \<open>JSON.stringify\<close> does
  not raise, \<open>findIPv6CIDRBlock\<close> is called with the text of the data and returns in
  its first round: the block has the prefix length 128 and its network is the text of
  the first four colon-separated groups of the queried string followed by \<open>::\<close>,
  whatever the bits of the address are. For \<open>2001:4860:4860::8888\<close> this is
  \<open>2001:4860:4860:::/128\<close>.
\<close>

theorem findCIDRBlock_ipv6_first_prefix:
  assumes "dataset context = Some d" and "reader context = Some r" and "isValidIP ip"
    and "CHR ''.'' \<notin> set ip" and "reader_pure get"
    and "fst (get r ip) = Inr v" and "truthy v" and "stringify v = Inr t"
  shows "fst (findIPv6CIDRBlock get stringify r ip t)
           = js_join '':'' (take 4 (js_split CHR '':'' ip)) @ ''::/128''
         \<and> fst (findCIDRBlock get stringify context ip)
           = Inr (Some (js_join '':'' (take 4 (js_split CHR '':'' ip)) @ ''::/128''))"
proof -
  from assms(5) have s: "snd (get r ip) = r" by (rule pure_snd)
  have "fst (ipv6_search get stringify ip t commonPrefixes r) =
          Some (js_join '':'' (take 4 (js_split CHR '':'' ip)) @ ''::/'' @ dec_nat 128)"
    unfolding commonPrefixes_def using assms(6,7,8) by (rule ipv6_search_first)
  then have b: "fst (findIPv6CIDRBlock get stringify r ip t) =
          js_join '':'' (take 4 (js_split CHR '':'' ip)) @ ''::/128''"
    by (simp add: fst_findIPv6CIDRBlock dec_nat_128)
  with assms s show ?thesis
    by (simp add: findCIDRBlock_loaded)
qed

theorem findCIDRBlock_ipv6_first_prefix_witness:
  "dataset const_context = Some demo_dataset \<and> reader const_context = Some ()
   \<and> isValidIP ''2001:4860:4860::8888'' \<and> CHR ''.'' \<notin> set ''2001:4860:4860::8888''
   \<and> reader_pure (const_get record_a)
   \<and> fst (const_get record_a () ''2001:4860:4860::8888'') = Inr record_a \<and> truthy record_a
   \<and> json_text int_text record_a
       = Inr ''{\"country\":{\"iso_code\":\"FR\",\"names\":{\"en\":\"France\"}}}''
   \<and> fst (findIPv6CIDRBlock (const_get record_a) (json_text int_text) () ''2001:4860:4860::8888''
             ''{\"country\":{\"iso_code\":\"FR\",\"names\":{\"en\":\"France\"}}}'')
       = js_join '':'' (take 4 (js_split CHR '':'' ''2001:4860:4860::8888'')) @ ''::/128''
   \<and> fst (findCIDRBlock (const_get record_a) (json_text int_text) const_context ''2001:4860:4860::8888'') =
       Inr (Some (js_join '':'' (take 4 (js_split CHR '':'' ''2001:4860:4860::8888'')) @ ''::/128''))
   \<and> js_join '':'' (take 4 (js_split CHR '':'' ''2001:4860:4860::8888'')) @ ''::/128''
       = ''2001:4860:4860:::/128''"
proof -
  have c: "isValidIP ''2001:4860:4860::8888''" by code_simp
  have d: "CHR ''.'' \<notin> set ''2001:4860:4860::8888''" by simp
  have f: "fst (const_get record_a () ''2001:4860:4860::8888'') = Inr record_a"
    by (simp add: const_get_def)
  have g: "truthy record_a" by (simp add: record_a_def)
  have t: "json_text int_text record_a
       = Inr ''{\"country\":{\"iso_code\":\"FR\",\"names\":{\"en\":\"France\"}}}''" by code_simp
  have v: "js_join '':'' (take 4 (js_split CHR '':'' ''2001:4860:4860::8888'')) @ ''::/128''
       = ''2001:4860:4860:::/128''" by code_simp
  note w = findCIDRBlock_ipv6_first_prefix [where get = "const_get record_a" and stringify = "json_text int_text",
      OF const_context_loaded c d const_get_pure f g t]
  show ?thesis
    by (intro conjI const_context_loaded c d const_get_pure f g t w [THEN conjunct1]
          w [THEN conjunct2] v)
qed

text \<open>
  C10 as stated fails: the reader returns for \<open>2001:4860:4860::8888\<close> a record that
  holds a \<open>BigInt\<close>; \<open>JSON.stringify\<close> raises on it, \<open>findIPv6CIDRBlock\<close> is not called
  and \<open>findCIDRBlock\<close> returns \<open>null\<close>, no block of length 128.
\<close>

theorem findCIDRBlock_ipv6_bigint_counterexample:
  "isValidIP ''2001:4860:4860::8888'' \<and> CHR ''.'' \<notin> set ''2001:4860:4860::8888''
   \<and> fst (const_get record_c () ''2001:4860:4860::8888'') = Inr record_c \<and> truthy record_c
   \<and> fst (lookupIP (const_get record_c) const_context ''2001:4860:4860::8888'') = Inr record_c
   \<and> fst (findCIDRBlock (const_get record_c) (json_text int_text) const_context
             ''2001:4860:4860::8888'') = Inr None"
  by code_simp

section \<open>Lookups and the context\<close>






end
